theory Spec2Isabelle
  imports Complex_Main "HOL-Library.Word" "HOL-Library.Log_Nat" "HOL-Library.Signed_Division"
begin

unbundle bit_operations_syntax

section \<open>Machine types\<close>

type_synonym byte = "8 word"
type_synonym uint8 = "8 word"
type_synonym int8 = "8 word"
type_synonym uint32 = "32 word"

text \<open>
  \<open>binary.BigEndian.Uint32(b)\<close> reads \<open>b[0..3]\<close>, most significant byte first;
  \<open>binary.BigEndian.PutUint32(b, v)\<close> writes them. Both panic on a slice shorter than
  four bytes; every caller below passes a slice of exactly four bytes (guarded by the
  length checks of \<open>ParsePacket\<close> and \<open>SetKissOfDeathCode\<close>, or a literal).
  A Go slice \<open>data[lo:hi]\<close> is \<open>slice data lo hi\<close>; writing through the slice
  \<open>data[off:off+4]\<close> updates \<open>data\<close> at \<open>off .. off+3\<close>.
\<close>

definition slice :: "'a list \<Rightarrow> nat \<Rightarrow> nat \<Rightarrow> 'a list" where
  "slice xs lo hi = take (hi - lo) (drop lo xs)"

definition Uint32 :: "byte list \<Rightarrow> uint32" where
  "Uint32 b = ucast (b ! 3) OR push_bit 8 (ucast (b ! 2))
              OR push_bit 16 (ucast (b ! 1)) OR push_bit 24 (ucast (b ! 0))"

definition PutUint32 :: "byte list \<Rightarrow> nat \<Rightarrow> uint32 \<Rightarrow> byte list" where
  "PutUint32 data off v =
     data[off := ucast (drop_bit 24 v),
          off + 1 := ucast (drop_bit 16 v),
          off + 2 := ucast (drop_bit 8 v),
          off + 3 := ucast v]"


section \<open>Go integers\<close>

text \<open>
  Go's \<open>/\<close> and \<open>%\<close> on integers truncate towards zero: \<open>sdiv\<close> and \<open>smod\<close>.
  \<open>int64\<close> values are integers; where the source multiplies or negates an \<open>int64\<close>
  that a configuration can make arbitrarily large, the wrap-around is \<open>wrap64\<close>.
  A conversion to \<open>uint8\<close> or \<open>uint32\<close> keeps the low bits: \<open>word_of_int\<close>.
\<close>

definition wrap64 :: "int \<Rightarrow> int" where
  "wrap64 x = signed_take_bit 63 x"

text \<open>\<open>fmt.Sprintf("%d", n)\<close>.\<close>

fun show_nat :: "nat \<Rightarrow> string" where
  "show_nat n = (if n < 10 then [''0123456789'' ! n]
                 else show_nat (n div 10) @ [''0123456789'' ! (n mod 10)])"

definition show_int :: "int \<Rightarrow> string" where
  "show_int i = (if i < 0 then CHR ''-'' # show_nat (nat (- i)) else show_nat (nat i))"

section \<open>float64 arithmetic\<close>

text \<open>
  A finite \<open>float64\<close> is modelled by the rational number it denotes. Every IEEE 754
  operation computes the exact result and rounds it to the nearest number with 53
  significant bits, ties to even: \<open>f64_round\<close>. The exponent is not bounded in the
  model; the values the modelled code computes from timestamps lie in the normal range
  of \<open>float64\<close> (they are 0 or between \<open>2\<^sup>-\<^sup>3\<^sup>0\<close> and \<open>2\<^sup>6\<^sup>3\<close>).
  \<open>ilog2 x\<close> is the floor of the binary logarithm of a positive rational.
  A conversion of a \<open>float64\<close> to an integer type truncates towards zero
  (\<open>f64_trunc\<close>); Go leaves the result open when the truncated value does not fit the
  target type, which the timestamp conversions never reach.
\<close>

definition round_half_even :: "rat \<Rightarrow> int" where
  "round_half_even x =
     (let f = \<lfloor>x\<rfloor>; d = x - of_int f in
      if d < 1 / 2 then f else if 1 / 2 < d then f + 1
      else if even f then f else f + 1)"

definition ilog2 :: "rat \<Rightarrow> int" where
  "ilog2 x = (case quotient_of x of (a, b) \<Rightarrow>
     let k = bitlen a - bitlen b in if 2 powi k \<le> x then k else k - 1)"

definition f64_round :: "rat \<Rightarrow> rat" where
  "f64_round x =
     (if x = 0 then 0
      else let e = ilog2 \<bar>x\<bar> - 52
           in sgn x * of_int (round_half_even (\<bar>x\<bar> / 2 powi e)) * 2 powi e)"

definition f64_of_int :: "int \<Rightarrow> rat" where
  "f64_of_int n = f64_round (of_int n)"

definition f64_add :: "rat \<Rightarrow> rat \<Rightarrow> rat" where
  "f64_add x y = f64_round (x + y)"

definition f64_mul :: "rat \<Rightarrow> rat \<Rightarrow> rat" where
  "f64_mul x y = f64_round (x * y)"

definition f64_div :: "rat \<Rightarrow> rat \<Rightarrow> rat" where
  "f64_div x y = f64_round (x / y)"

definition f64_trunc :: "rat \<Rightarrow> int" where
  "f64_trunc x = (if 0 \<le> x then \<lfloor>x\<rfloor> else \<lceil>x\<rceil>)"

definition f64_to_uint32 :: "rat \<Rightarrow> uint32" where
  "f64_to_uint32 x = word_of_int (f64_trunc x)"

definition f64_to_int64 :: "rat \<Rightarrow> int" where
  "f64_to_int64 x = f64_trunc x"

section \<open>Package time of the Go standard library\<close>

text \<open>
  A \<open>time.Time\<close> is an instant: seconds since the Unix epoch (\<open>t.Unix()\<close>) and
  nanoseconds within the second (\<open>t.Nanosecond()\<close>, 0 to 999999999). The monotonic
  reading and the location do not enter the modelled code. A \<open>time.Duration\<close> is an
  \<open>int64\<close> count of nanoseconds. The functions follow the library's sources;
  \<open>Time.Add\<close> saturates at the ends of the representable years, which is left out.
\<close>

record Time =
  unix_sec :: int
  unix_nsec :: int

definition Second :: int where "Second = 1000000000"
definition minDuration :: int where "minDuration = - (2 ^ 63)"
definition maxDuration :: int where "maxDuration = 2 ^ 63 - 1"

definition Unix :: "Time \<Rightarrow> int" where "Unix t = unix_sec t"
definition Nanosecond :: "Time \<Rightarrow> int" where "Nanosecond t = unix_nsec t"

text \<open>\<open>time.Unix(sec, nsec)\<close> brings \<open>nsec\<close> into range.\<close>

definition time_Unix :: "int \<Rightarrow> int \<Rightarrow> Time" where
  "time_Unix s ns =
     (if ns < 0 \<or> ns \<ge> 1000000000 then
        let n = ns sdiv 1000000000;
            s = s + n;
            ns = ns - n * 1000000000
        in if ns < 0 then \<lparr>unix_sec = s - 1, unix_nsec = ns + 1000000000\<rparr>
           else \<lparr>unix_sec = s, unix_nsec = ns\<rparr>
      else \<lparr>unix_sec = s, unix_nsec = ns\<rparr>)"

definition time_Add :: "Time \<Rightarrow> int \<Rightarrow> Time" where
  "time_Add t d =
     (let dsec = d sdiv 1000000000;
          ns = unix_nsec t + d smod 1000000000
      in if ns \<ge> 1000000000 then \<lparr>unix_sec = unix_sec t + (dsec + 1), unix_nsec = ns - 1000000000\<rparr>
         else if ns < 0 then \<lparr>unix_sec = unix_sec t + (dsec - 1), unix_nsec = ns + 1000000000\<rparr>
         else \<lparr>unix_sec = unix_sec t + dsec, unix_nsec = ns\<rparr>)"

definition time_Before :: "Time \<Rightarrow> Time \<Rightarrow> bool" where
  "time_Before t u \<longleftrightarrow> unix_sec t < unix_sec u \<or> (unix_sec t = unix_sec u \<and> unix_nsec t < unix_nsec u)"

definition time_Sub :: "Time \<Rightarrow> Time \<Rightarrow> int" where
  "time_Sub t u =
     (let d = (unix_sec t - unix_sec u) * Second + (unix_nsec t - unix_nsec u)
      in if minDuration \<le> d \<and> d \<le> maxDuration then d
         else if time_Before t u then minDuration else maxDuration)"

text \<open>\<open>Duration.Seconds()\<close> and \<open>Duration.Milliseconds()\<close>.\<close>

definition Seconds_of :: "int \<Rightarrow> rat" where
  "Seconds_of d =
     f64_add (f64_of_int (d sdiv Second)) (f64_div (f64_of_int (d smod Second)) 1000000000)"

definition Milliseconds :: "int \<Rightarrow> int" where
  "Milliseconds d = d sdiv 1000000"

text \<open>
  \<open>time.Date(year, month, day, hour, min, sec, nsec, time.UTC)\<close> for a month, day and
  time of day within their ranges, as the source calls it: the days of the proleptic
  Gregorian calendar since 1970-01-01, then the seconds of the day.
\<close>

definition days_from_civil :: "int \<Rightarrow> int \<Rightarrow> int \<Rightarrow> int" where
  "days_from_civil y m d =
     (let y' = (if m \<le> 2 then y - 1 else y);
          era = y' div 400;
          yoe = y' - era * 400;
          doy = (153 * (if m > 2 then m - 3 else m + 9) + 2) div 5 + d - 1;
          doe = yoe * 365 + yoe div 4 - yoe div 100 + doy
      in era * 146097 + doe - 719468)"

definition time_Date :: "int \<Rightarrow> int \<Rightarrow> int \<Rightarrow> int \<Rightarrow> int \<Rightarrow> int \<Rightarrow> int \<Rightarrow> Time" where
  "time_Date y mo d h mi s ns =
     \<lparr>unix_sec = days_from_civil y mo d * 86400 + h * 3600 + mi * 60 + s, unix_nsec = ns\<rparr>"

text \<open>The zero value \<open>time.Time{}\<close> is January 1, year 1, 00:00:00 UTC.\<close>

definition zeroTime :: Time where
  "zeroTime = time_Date 1 1 1 0 0 0 0"

text \<open>A Go string is a byte sequence; \<open>[]byte(code)\<close> are its bytes.\<close>

definition bytes_of_string :: "string \<Rightarrow> byte list" where
  "bytes_of_string s = map of_char s"

section \<open>Package ntpcore: the wire codec\<close>

definition NTPEpochOffset :: int where "NTPEpochOffset = 2208988800"
definition NTPPacketSize :: nat where "NTPPacketSize = 48"
definition NTPPacketMinSize :: nat where "NTPPacketMinSize = 48"

definition LeapNoWarning :: uint8 where "LeapNoWarning = 0"
definition LeapAlarm :: uint8 where "LeapAlarm = 3"
definition ModeClient :: uint8 where "ModeClient = 3"
definition ModeServer :: uint8 where "ModeServer = 4"
definition VersionNTPv3 :: uint8 where "VersionNTPv3 = 3"
definition VersionNTPv4 :: uint8 where "VersionNTPv4 = 4"

text \<open>
  \<open>NTPPacket\<close>: the struct, field by field. \<open>Poll\<close> and \<open>Precision\<close> are \<open>int8\<close>:
  eight-bit words read as two's complement (\<open>sint\<close>).
\<close>

record NTPPacket =
  LeapIndicator :: uint8
  Version :: uint8
  Mode :: uint8
  Stratum :: uint8
  Poll :: int8
  Precision :: int8
  RootDelay :: uint32
  RootDisp :: uint32
  ReferenceID :: uint32
  RefTimeSec :: uint32
  RefTimeFrac :: uint32
  OrigTimeSec :: uint32
  OrigTimeFrac :: uint32
  RecvTimeSec :: uint32
  RecvTimeFrac :: uint32
  XmitTimeSec :: uint32
  XmitTimeFrac :: uint32


record NTPTimestamp =
  Seconds :: uint32
  Fraction :: uint32

definition TimeToNTPTimestamp :: "Time \<Rightarrow> NTPTimestamp" where
  "TimeToNTPTimestamp t =
     (let secs = Unix t + NTPEpochOffset;
          nanos = Nanosecond t;
          fr = f64_to_uint32
                 (f64_mul (f64_div (f64_of_int nanos) 1000000000) (f64_of_int (2 ^ 32)))
      in \<lparr>Seconds = word_of_int secs, Fraction = fr\<rparr>)"

definition NTPTimestampToTime :: "NTPTimestamp \<Rightarrow> Time" where
  "NTPTimestampToTime ts =
     (let secs = uint (Seconds ts) - NTPEpochOffset;
          nanos = f64_to_int64
                    (f64_mul (f64_div (f64_of_int (uint (Fraction ts))) (f64_of_int (2 ^ 32)))
                       1000000000)
      in time_Unix secs nanos)"

datatype error = PacketTooShort | KissCodeLength

text \<open>The zero value \<open>&NTPPacket{}\<close>.\<close>

definition zeroPacket :: NTPPacket where
  "zeroPacket = \<lparr>LeapIndicator = 0, Version = 0, Mode = 0, Stratum = 0, Poll = 0,
     Precision = 0, RootDelay = 0, RootDisp = 0, ReferenceID = 0, RefTimeSec = 0,
     RefTimeFrac = 0, OrigTimeSec = 0, OrigTimeFrac = 0, RecvTimeSec = 0,
     RecvTimeFrac = 0, XmitTimeSec = 0, XmitTimeFrac = 0\<rparr>"

definition NewPacket :: NTPPacket where
  "NewPacket = zeroPacket\<lparr>LeapIndicator := LeapNoWarning, Version := VersionNTPv4,
     Mode := ModeServer, Stratum := 2, Poll := 6, Precision := word_of_int (- 20),
     RootDelay := 0, RootDisp := 0, ReferenceID := 0\<rparr>"

definition ParsePacket :: "byte list \<Rightarrow> error + NTPPacket" where
  "ParsePacket data =
     (if length data < NTPPacketMinSize then Inl PacketTooShort
      else let firstByte = data ! 0 in
        Inr (zeroPacket\<lparr>
          LeapIndicator := drop_bit 6 firstByte AND 3,
          Version := drop_bit 3 firstByte AND 7,
          Mode := firstByte AND 7,
          Stratum := data ! 1,
          Poll := data ! 2,
          Precision := data ! 3,
          RootDelay := Uint32 (slice data 4 8),
          RootDisp := Uint32 (slice data 8 12),
          ReferenceID := Uint32 (slice data 12 16),
          RefTimeSec := Uint32 (slice data 16 20),
          RefTimeFrac := Uint32 (slice data 20 24),
          OrigTimeSec := Uint32 (slice data 24 28),
          OrigTimeFrac := Uint32 (slice data 28 32),
          RecvTimeSec := Uint32 (slice data 32 36),
          RecvTimeFrac := Uint32 (slice data 36 40),
          XmitTimeSec := Uint32 (slice data 40 44),
          XmitTimeFrac := Uint32 (slice data 44 48)\<rparr>))"

definition Bytes :: "NTPPacket \<Rightarrow> byte list" where
  "Bytes p =
     (let data = replicate NTPPacketSize 0;
          data = data[0 := push_bit 6 (LeapIndicator p) OR push_bit 3 (Version p) OR Mode p];
          data = data[1 := Stratum p];
          data = data[2 := Poll p];
          data = data[3 := Precision p];
          data = PutUint32 data 4 (RootDelay p);
          data = PutUint32 data 8 (RootDisp p);
          data = PutUint32 data 12 (ReferenceID p);
          data = PutUint32 data 16 (RefTimeSec p);
          data = PutUint32 data 20 (RefTimeFrac p);
          data = PutUint32 data 24 (OrigTimeSec p);
          data = PutUint32 data 28 (OrigTimeFrac p);
          data = PutUint32 data 32 (RecvTimeSec p);
          data = PutUint32 data 36 (RecvTimeFrac p);
          data = PutUint32 data 40 (XmitTimeSec p);
          data = PutUint32 data 44 (XmitTimeFrac p)
      in data)"

definition SetReferenceTime :: "NTPPacket \<Rightarrow> Time \<Rightarrow> NTPPacket" where
  "SetReferenceTime p t =
     (let ts = TimeToNTPTimestamp t in p\<lparr>RefTimeSec := Seconds ts, RefTimeFrac := Fraction ts\<rparr>)"

definition SetOriginTime :: "NTPPacket \<Rightarrow> uint32 \<Rightarrow> uint32 \<Rightarrow> NTPPacket" where
  "SetOriginTime p sec fr = p\<lparr>OrigTimeSec := sec, OrigTimeFrac := fr\<rparr>"

definition SetReceiveTime :: "NTPPacket \<Rightarrow> Time \<Rightarrow> NTPPacket" where
  "SetReceiveTime p t =
     (let ts = TimeToNTPTimestamp t in p\<lparr>RecvTimeSec := Seconds ts, RecvTimeFrac := Fraction ts\<rparr>)"

definition SetTransmitTime :: "NTPPacket \<Rightarrow> Time \<Rightarrow> NTPPacket" where
  "SetTransmitTime p t =
     (let ts = TimeToNTPTimestamp t in p\<lparr>XmitTimeSec := Seconds ts, XmitTimeFrac := Fraction ts\<rparr>)"

definition GetTransmitTime :: "NTPPacket \<Rightarrow> Time" where
  "GetTransmitTime p =
     NTPTimestampToTime \<lparr>Seconds = XmitTimeSec p, Fraction = XmitTimeFrac p\<rparr>"

text \<open>
  \<open>SetKissOfDeathCode\<close> mutates the packet and returns an error or nil: the model
  returns the packet after the call together with the error, if any.
\<close>

definition SetKissOfDeathCode :: "NTPPacket \<Rightarrow> string \<Rightarrow> NTPPacket \<times> error option" where
  "SetKissOfDeathCode p code =
     (if length code \<noteq> 4 then (p, Some KissCodeLength)
      else (p\<lparr>Stratum := 0, ReferenceID := Uint32 (bytes_of_string code)\<rparr>, None))"

definition GetKissOfDeathCode :: "NTPPacket \<Rightarrow> byte list" where
  "GetKissOfDeathCode p =
     (if Stratum p \<noteq> 0 then []
      else PutUint32 (replicate 4 0) 0 (ReferenceID p))"

definition IsValidClientRequest :: "NTPPacket \<Rightarrow> bool" where
  "IsValidClientRequest p \<longleftrightarrow>
     Mode p = ModeClient \<and> (Version p = VersionNTPv3 \<or> Version p = VersionNTPv4)"

text \<open>\<open>CalculateRootDelay\<close>: milliseconds to the NTP short format.\<close>

definition CalculateRootDelay :: "rat \<Rightarrow> uint32" where
  "CalculateRootDelay ms =
     (let secs = f64_div ms 1000 in f64_to_uint32 (f64_mul secs 65536))"

definition CalculateRootDispersion :: "rat \<Rightarrow> uint32" where
  "CalculateRootDispersion ms = CalculateRootDelay ms"

section \<open>Package config: the security section\<close>

text \<open>
  The structs of the security configuration, with their fields; \<open>Enabled\<close>,
  \<open>Interval\<close>, \<open>Mode\<close>, \<open>Code\<close> and \<open>LeapIndicator\<close> carry the prefix of their
  struct, since a field name is a constant here. \<open>int\<close> and \<open>int64\<close> fields are
  integers, \<open>float64\<close> fields finite rationals.
\<close>

record TimeSpoofingConfig =
  ts_Enabled :: bool
  OffsetSecs :: int
  CustomTime :: string

record TimeDriftConfig =
  td_Enabled :: bool
  DriftPerSec :: rat
  MaxDrift :: rat
  Direction :: string

record KissOfDeathConfig =
  kod_Enabled :: bool
  kod_Code :: string
  kod_Interval :: int

record StratumAttackConfig =
  sa_Enabled :: bool
  FakeStratum :: int

record LeapSecondConfig =
  ls_Enabled :: bool
  ls_LeapIndicator :: int

record RolloverConfig =
  ro_Enabled :: bool
  TargetYear :: int
  ro_Mode :: string

record ClockStepConfig =
  cs_Enabled :: bool
  StepSecs :: int
  cs_Interval :: int

record FuzzingConfig =
  fz_Enabled :: bool
  fz_Mode :: string

record SecurityConfig =
  sec_Enabled :: bool
  ActiveAttack :: string
  TimeSpoofing :: TimeSpoofingConfig
  TimeDrift :: TimeDriftConfig
  KissOfDeath :: KissOfDeathConfig
  StratumAttack :: StratumAttackConfig
  LeapSecond :: LeapSecondConfig
  Rollover :: RolloverConfig
  ClockStep :: ClockStepConfig
  Fuzzing :: FuzzingConfig

record Config =
  Security :: SecurityConfig

section \<open>Package attacks: the attack engine\<close>

record DriftState =
  StartTime :: Time
  CurrentDrift :: int
  LastUpdate :: Time

text \<open>
  The engine: its configuration, the drift state and the per-client request counts, a
  Go map from the client address to an \<open>int\<close>. Reading a key that is absent gives 0.
  The lock and the logger are not state of the model.
\<close>

record AttackEngine =
  cfg :: Config
  driftState :: DriftState
  requestCount :: "string \<rightharpoonup> int"

definition count_of :: "(string \<rightharpoonup> int) \<Rightarrow> string \<Rightarrow> int" where
  "count_of m k = (case m k of None \<Rightarrow> 0 | Some n \<Rightarrow> n)"

text \<open>
  What one call of \<open>ProcessPacket\<close> reads from outside the engine: the result of
  \<open>time.Parse(time.RFC3339, cfg.CustomTime)\<close> (\<open>None\<close> when it fails), the clock
  readings of \<open>time.Since\<close> and \<open>time.Now\<close> in \<open>applyTimeDrift\<close>, and the outputs of
  the random generator, in the order of the calls: \<open>rand.Intn(n)\<close> is the next output
  modulo \<open>n\<close>.
\<close>

record AttackEnv =
  parsedCustomTime :: "Time option"
  sinceNow :: Time
  updateNow :: Time
  rand1 :: nat
  rand2 :: nat
  rand3 :: nat

definition Intn :: "nat \<Rightarrow> nat \<Rightarrow> nat" where
  "Intn n r = r mod n"

definition IsEnabled :: "AttackEngine \<Rightarrow> bool" where
  "IsEnabled e = sec_Enabled (Security (cfg e))"

definition applyTimeSpoofing ::
  "AttackEngine \<Rightarrow> AttackEnv \<Rightarrow> NTPPacket \<Rightarrow> Time \<Rightarrow> NTPPacket \<times> string" where
  "applyTimeSpoofing e env packet realTime =
     (let c = TimeSpoofing (Security (cfg e)) in
      if \<not> ts_Enabled c then (packet, [])
      else
        let fakeTime =
              (if CustomTime c \<noteq> [] then
                 (case parsedCustomTime env of
                    Some parsed \<Rightarrow> parsed
                  | None \<Rightarrow> time_Add realTime (wrap64 (OffsetSecs c * Second)))
               else time_Add realTime (wrap64 (OffsetSecs c * Second)));
            packet = SetReceiveTime packet fakeTime;
            packet = SetTransmitTime packet fakeTime;
            packet = SetReferenceTime packet (time_Add fakeTime (- Second))
        in (packet, ''Time Spoofing''))"

definition applyTimeDrift ::
  "AttackEngine \<Rightarrow> AttackEnv \<Rightarrow> NTPPacket \<Rightarrow> Time \<Rightarrow> AttackEngine \<times> NTPPacket \<times> string" where
  "applyTimeDrift e env packet realTime =
     (let c = TimeDrift (Security (cfg e)) in
      if \<not> td_Enabled c then (e, packet, [])
      else
        let elapsed = Seconds_of (time_Sub (sinceNow env) (StartTime (driftState e)));
            driftAmount = f64_mul elapsed (DriftPerSec c);
            driftAmount = (if driftAmount > MaxDrift c then MaxDrift c else driftAmount);
            driftDuration = f64_to_int64 (f64_mul driftAmount (f64_of_int Second));
            driftDuration =
              (if Direction c = ''backward'' then wrap64 (- driftDuration) else driftDuration);
            e = e\<lparr>driftState :=
                  (driftState e)\<lparr>CurrentDrift := driftDuration, LastUpdate := updateNow env\<rparr>\<rparr>;
            fakeTime = time_Add realTime driftDuration;
            packet = SetReceiveTime packet fakeTime;
            packet = SetTransmitTime packet fakeTime;
            packet = SetReferenceTime packet (time_Add fakeTime (- Second))
        in (e, packet, ''Time Drift''))"

definition applyKissOfDeath ::
  "AttackEngine \<Rightarrow> NTPPacket \<Rightarrow> string \<Rightarrow> int \<Rightarrow> NTPPacket \<times> string" where
  "applyKissOfDeath e packet clientAddr count =
     (let c = KissOfDeath (Security (cfg e)) in
      if \<not> kod_Enabled c then (packet, [])
      else if kod_Interval c > 0 \<and> count smod kod_Interval c \<noteq> 0 then (packet, [])
      else
        let packet = packet\<lparr>Stratum := 0\<rparr>;
            packet = packet\<lparr>LeapIndicator := LeapAlarm\<rparr>;
            packet =
              (case SetKissOfDeathCode packet (kod_Code c) of
                 (p, Some err) \<Rightarrow> fst (SetKissOfDeathCode p ''DENY'')
               | (p, None) \<Rightarrow> p)
        in (packet, ''Kiss-of-Death ('' @ kod_Code c @ '')''))"

text \<open>
  The code that \<open>applyKissOfDeath\<close> ends up writing: the configured code when
  \<open>SetKissOfDeathCode\<close> accepts it, \<open>DENY\<close> otherwise.
\<close>

definition kod_code_sent :: "AttackEngine \<Rightarrow> string" where
  "kod_code_sent e =
     (if length (kod_Code (KissOfDeath (Security (cfg e)))) = 4
      then kod_Code (KissOfDeath (Security (cfg e))) else ''DENY'')"

definition applyStratumLie :: "AttackEngine \<Rightarrow> NTPPacket \<Rightarrow> NTPPacket \<times> string" where
  "applyStratumLie e packet =
     (let c = StratumAttack (Security (cfg e)) in
      if \<not> sa_Enabled c then (packet, [])
      else
        let packet = packet\<lparr>Stratum := word_of_int (FakeStratum c)\<rparr>;
            packet =
              (if FakeStratum c = 1
               then packet\<lparr>ReferenceID := Uint32 (bytes_of_string (''GPS'' @ [CHR 0x00]))\<rparr>
               else packet)
        in (packet, ''Stratum Lie ('' @ show_int (FakeStratum c) @ '')''))"

definition leapDesc :: "int \<Rightarrow> string" where
  "leapDesc i =
     (if i = 1 then ''+1 second'' else if i = 2 then ''-1 second''
      else if i = 3 then ''alarm/unsynchronized'' else [])"

definition applyLeapSecond :: "AttackEngine \<Rightarrow> NTPPacket \<Rightarrow> NTPPacket \<times> string" where
  "applyLeapSecond e packet =
     (let c = LeapSecond (Security (cfg e)) in
      if \<not> ls_Enabled c then (packet, [])
      else
        let packet = packet\<lparr>LeapIndicator := word_of_int (ls_LeapIndicator c)\<rparr>
        in (packet, ''Leap Second ('' @ leapDesc (ls_LeapIndicator c) @ '')''))"

definition applyRollover :: "AttackEngine \<Rightarrow> NTPPacket \<Rightarrow> NTPPacket \<times> string" where
  "applyRollover e packet =
     (let c = Rollover (Security (cfg e)) in
      if \<not> ro_Enabled c then (packet, [])
      else
        let (rolloverTime, description) =
              (if ro_Mode c = ''y2k38''
               then (time_Date 2038 1 19 3 14 7 0, ''Y2K38 (Unix 32-bit overflow)'')
               else if ro_Mode c = ''ntp_era''
               then (time_Date 2036 2 7 6 28 16 0, ''NTP Era 1 rollover'')
               else if ro_Mode c = ''custom''
               then (time_Date (TargetYear c) 1 1 0 0 0 0,
                     ''Custom year '' @ show_int (TargetYear c))
               else (time_Date 2038 1 19 3 14 7 0, ''Y2K38''));
            packet = SetReceiveTime packet rolloverTime;
            packet = SetTransmitTime packet rolloverTime;
            packet = SetReferenceTime packet (time_Add rolloverTime (- Second))
        in (packet, ''Rollover ('' @ description @ '')''))"

definition applyClockStep ::
  "AttackEngine \<Rightarrow> NTPPacket \<Rightarrow> Time \<Rightarrow> int \<Rightarrow> NTPPacket \<times> string" where
  "applyClockStep e packet realTime count =
     (let c = ClockStep (Security (cfg e)) in
      if \<not> cs_Enabled c then (packet, [])
      else if cs_Interval c > 0 \<and> count smod cs_Interval c \<noteq> 0 then (packet, [])
      else
        let stepDuration = wrap64 (StepSecs c * Second);
            steppedTime = time_Add realTime stepDuration;
            packet = SetReceiveTime packet steppedTime;
            packet = SetTransmitTime packet steppedTime;
            packet = SetReferenceTime packet (time_Add steppedTime (- Second))
        in (packet, ''Clock Step (+'' @ show_int (StepSecs c) @ ''s)''))"

definition applyFuzzing :: "AttackEngine \<Rightarrow> AttackEnv \<Rightarrow> NTPPacket \<Rightarrow> NTPPacket \<times> string" where
  "applyFuzzing e env packet =
     (if \<not> fz_Enabled (Fuzzing (Security (cfg e))) then (packet, [])
      else
        let mutationType = Intn 10 (rand1 env) in
        if mutationType = 0 then
          let v = (of_nat (Intn 8 (rand2 env)) :: uint8);
              v = (if v = 3 \<or> v = 4 then of_nat (Intn 8 (rand3 env)) else v)
          in (packet\<lparr>Version := v\<rparr>, ''Fuzz: Version '' @ show_nat (unat v))
        else if mutationType = 1 then
          let m = (of_nat (Intn 8 (rand2 env)) :: uint8);
              m = (if m = 4 then 0 else m)
          in (packet\<lparr>Mode := m\<rparr>, ''Fuzz: Mode '' @ show_nat (unat m))
        else if mutationType = 2 then
          let s = (of_nat (Intn 20 (rand2 env)) :: uint8);
              s = (if s = 0 then 16 else if s > 16 then 0 else s)
          in (packet\<lparr>Stratum := s\<rparr>, ''Fuzz: Stratum '' @ show_nat (unat s))
        else if mutationType = 3 then
          (packet\<lparr>LeapIndicator := 3\<rparr>, ''Fuzz: LI Alarm'')
        else if mutationType = 4 then
          let packet = SetReceiveTime packet zeroTime;
              packet = SetTransmitTime packet zeroTime;
              packet = SetReferenceTime packet zeroTime
          in (packet, ''Fuzz: Zero Timestamps'')
        else if mutationType = 5 then
          (packet\<lparr>RecvTimeSec := 0xFFFFFFFF, RecvTimeFrac := 0xFFFFFFFF,
                  XmitTimeSec := 0xFFFFFFFF, XmitTimeFrac := 0xFFFFFFFF\<rparr>,
           ''Fuzz: Max Timestamps'')
        else if mutationType = 6 then
          (packet\<lparr>RootDelay := 0xFFFF0000, RootDisp := 0xFFFF0000\<rparr>,
           ''Fuzz: Large Root Delay'')
        else if mutationType = 7 then
          (packet\<lparr>ReferenceID := 0x41414141\<rparr>, ''Fuzz: RefID AAAA'')
        else if mutationType = 8 then
          (packet\<lparr>OrigTimeSec := OrigTimeSec packet + 1\<rparr>, ''Fuzz: Origin Mismatch'')
        else if mutationType = 9 then
          (packet\<lparr>Poll := word_of_int (- 100), Precision := 100\<rparr>,
           ''Fuzz: Invalid Poll/Prec'')
        else (packet, ''Generic Fuzzing''))"

text \<open>
  \<open>ProcessPacket\<close> returns the engine after the call, the packet and the attack name.
\<close>

definition ProcessPacket ::
  "AttackEngine \<Rightarrow> AttackEnv \<Rightarrow> NTPPacket \<Rightarrow> string \<Rightarrow> Time
     \<Rightarrow> AttackEngine \<times> NTPPacket \<times> string" where
  "ProcessPacket e env packet clientAddr realTime =
     (if \<not> sec_Enabled (Security (cfg e)) then (e, packet, [])
      else
        let e = e\<lparr>requestCount :=
                  (requestCount e)(clientAddr \<mapsto> count_of (requestCount e) clientAddr + 1)\<rparr>;
            count = count_of (requestCount e) clientAddr;
            attack = ActiveAttack (Security (cfg e))
        in if attack = ''time_spoofing'' then
             (case applyTimeSpoofing e env packet realTime of (p, n) \<Rightarrow> (e, p, n))
           else if attack = ''time_drift'' then applyTimeDrift e env packet realTime
           else if attack = ''kiss_of_death'' then
             (case applyKissOfDeath e packet clientAddr count of (p, n) \<Rightarrow> (e, p, n))
           else if attack = ''stratum_attack'' then
             (case applyStratumLie e packet of (p, n) \<Rightarrow> (e, p, n))
           else if attack = ''leap_second'' then
             (case applyLeapSecond e packet of (p, n) \<Rightarrow> (e, p, n))
           else if attack = ''rollover'' then
             (case applyRollover e packet of (p, n) \<Rightarrow> (e, p, n))
           else if attack = ''clock_step'' then
             (case applyClockStep e packet realTime count of (p, n) \<Rightarrow> (e, p, n))
           else if attack = ''fuzzing'' then
             (case applyFuzzing e env packet of (p, n) \<Rightarrow> (e, p, n))
           else (e, packet, []))"

section \<open>Package ntp: the upstream tracker\<close>

record SyncStatus =
  Synchronized :: bool
  ActiveServer :: string
  ss_Stratum :: int
  Offset :: int
  RTT :: int
  LastSync :: Time
  LastError :: string

record UpstreamClient =
  clockOffset :: int
  lastSync :: Time
  syncStatus :: SyncStatus

definition GetCurrentTime :: "UpstreamClient \<Rightarrow> Time \<Rightarrow> Time" where
  "GetCurrentTime c now =
     (if \<not> Synchronized (syncStatus c) then now
      else let elapsed = time_Sub now (lastSync c)
           in time_Add (time_Add (lastSync c) elapsed) (clockOffset c))"

definition GetSyncStatus :: "UpstreamClient \<Rightarrow> SyncStatus" where
  "GetSyncStatus c = syncStatus c"

definition GetStratum :: "UpstreamClient \<Rightarrow> uint8" where
  "GetStratum c =
     (if \<not> Synchronized (syncStatus c) then 16
      else let stratum = ss_Stratum (syncStatus c) + 1;
               stratum = (if stratum > 15 then 15 else stratum)
           in word_of_int stratum)"

text \<open>
  \<open>GetReferenceID\<close> resolves the active server: \<open>lookupFailed\<close> says that
  \<open>net.LookupIP\<close> returned an error, \<open>ips\<close> holds \<open>ip.To4()\<close> of each address it
  returned (\<open>None\<close> for an address that is not IPv4, four bytes otherwise).
\<close>

fun firstIPv4 :: "byte list option list \<Rightarrow> uint32" where
  "firstIPv4 [] = 0"
| "firstIPv4 (None # ips) = firstIPv4 ips"
| "firstIPv4 (Some ipv4 # ips) =
     (push_bit 24 (ucast (ipv4 ! 0)) OR push_bit 16 (ucast (ipv4 ! 1))
      OR push_bit 8 (ucast (ipv4 ! 2)) OR ucast (ipv4 ! 3))"

definition GetReferenceID :: "UpstreamClient \<Rightarrow> bool \<Rightarrow> byte list option list \<Rightarrow> uint32" where
  "GetReferenceID c failed ips =
     (if \<not> Synchronized (syncStatus c) \<or> ActiveServer (syncStatus c) = [] then 0
      else if failed \<or> length ips = 0 then 0
      else firstIPv4 ips)"

section \<open>Package server: the request engine\<close>

record ServerStats =
  TotalRequests :: "64 word"
  TotalResponses :: "64 word"
  ActiveClients :: "string \<rightharpoonup> Time"
  ErrorCount :: "64 word"
  AttacksExecuted :: "64 word"

record Server =
  upstream :: UpstreamClient
  attackEngine :: AttackEngine
  stats :: ServerStats

text \<open>
  What one call of \<open>processRequest\<close> reads from outside the server: the clock
  (\<open>time.Now()\<close>) at each place it is read, the name resolution of \<open>GetReferenceID\<close>,
  the environment of the attack engine, and whether \<open>WriteToUDP\<close> failed. Logging and
  session recording do not change the response and are left out.
\<close>

record RequestEnv =
  clientsNow :: Time
  currentNow :: Time
  receiveNow :: Time
  transmitNow :: Time
  lookupFailed :: bool
  lookupIPs :: "byte list option list"
  attackEnv :: AttackEnv
  writeFailed :: bool

text \<open>
  The response packet that \<open>processRequest\<close> creates from the request before the
  attack engine sees it (from \<open>ntpcore.NewPacket()\<close> to the root dispersion).
\<close>

definition buildResponse :: "UpstreamClient \<Rightarrow> RequestEnv \<Rightarrow> Time \<Rightarrow> NTPPacket \<Rightarrow> NTPPacket" where
  "buildResponse up env currentTime packet =
     (let receiveTime = receiveNow env;
          response = NewPacket;
          response = response\<lparr>Version := Version packet\<rparr>;
          response = response\<lparr>Mode := ModeServer\<rparr>;
          response = response\<lparr>Stratum := GetStratum up\<rparr>;
          response = response\<lparr>Poll := Poll packet\<rparr>;
          response = response\<lparr>Precision := word_of_int (- 20)\<rparr>;
          response = response\<lparr>ReferenceID := GetReferenceID up (lookupFailed env) (lookupIPs env)\<rparr>;
          response = SetOriginTime response (XmitTimeSec packet) (XmitTimeFrac packet);
          response = SetReceiveTime response receiveTime;
          response = SetReferenceTime response (time_Add currentTime (- Second));
          response = SetTransmitTime response (transmitNow env);
          status = GetSyncStatus up;
          response = response\<lparr>RootDelay :=
                       CalculateRootDelay (f64_of_int (Milliseconds (RTT status)))\<rparr>;
          response = response\<lparr>RootDisp := CalculateRootDispersion 10\<rparr>
      in response)"

text \<open>
  The response after the attack stage of \<open>processRequest\<close>: the engine is consulted
  only when \<open>IsEnabled\<close> holds. The result is the engine after the call, the response
  and the attack name.
\<close>

definition attackStage ::
  "AttackEngine \<Rightarrow> AttackEnv \<Rightarrow> NTPPacket \<Rightarrow> string \<Rightarrow> Time
     \<Rightarrow> AttackEngine \<times> NTPPacket \<times> string" where
  "attackStage e env response clientStr currentTime =
     (if IsEnabled e then ProcessPacket e env response clientStr currentTime
      else (e, response, []))"

text \<open>
  \<open>processRequest\<close> returns the server after the call and the datagram handed to
  \<open>WriteToUDP\<close>, if the request got that far.
\<close>

definition processRequest ::
  "Server \<Rightarrow> RequestEnv \<Rightarrow> byte list \<Rightarrow> string \<Rightarrow> Server \<times> byte list option" where
  "processRequest s env data clientStr =
     (case ParsePacket data of
        Inl err \<Rightarrow>
          (s\<lparr>stats := (stats s)\<lparr>ErrorCount := ErrorCount (stats s) + 1\<rparr>\<rparr>, None)
      | Inr packet \<Rightarrow>
          if \<not> IsValidClientRequest packet then (s, None)
          else
            let s = s\<lparr>stats := (stats s)\<lparr>TotalRequests := TotalRequests (stats s) + 1\<rparr>\<rparr>;
                s = s\<lparr>stats := (stats s)\<lparr>ActiveClients :=
                        (ActiveClients (stats s))(clientStr \<mapsto> clientsNow env)\<rparr>\<rparr>;
                currentTime = GetCurrentTime (upstream s) (currentNow env);
                response = buildResponse (upstream s) env currentTime packet;
                (e, response, attackName) =
                  attackStage (attackEngine s) (attackEnv env) response clientStr currentTime;
                s = s\<lparr>attackEngine := e\<rparr>;
                s = (if attackName \<noteq> []
                     then s\<lparr>stats := (stats s)\<lparr>AttacksExecuted :=
                                         AttacksExecuted (stats s) + 1\<rparr>\<rparr>
                     else s);
                responseBytes = Bytes response
            in if writeFailed env then
                 (s\<lparr>stats := (stats s)\<lparr>ErrorCount := ErrorCount (stats s) + 1\<rparr>\<rparr>,
                  Some responseBytes)
               else
                 (s\<lparr>stats := (stats s)\<lparr>TotalResponses := TotalResponses (stats s) + 1\<rparr>\<rparr>,
                  Some responseBytes))"

section \<open>Example inputs\<close>

text \<open>
  A client request (version 4, mode 3, transmit timestamp \<open>E2A1B2C3.00000000\<close>) and
  its 48 bytes; an upstream tracker that never synchronized and one synchronized to a
  stratum-1 server; clock readings; an engine with security mode off and engines armed
  with one attack each.
\<close>

definition example_request :: NTPPacket where
  "example_request = zeroPacket\<lparr>Version := 4, Mode := 3, XmitTimeSec := 0xE2A1B2C3\<rparr>"

definition example_data :: "byte list" where
  "example_data =
     [0x23, 0, 0, 0, 0, 0, 0, 0, 0, 0, 0, 0, 0, 0, 0, 0,
      0, 0, 0, 0, 0, 0, 0, 0, 0, 0, 0, 0, 0, 0, 0, 0,
      0, 0, 0, 0, 0, 0, 0, 0, 0xE2, 0xA1, 0xB2, 0xC3, 0, 0, 0, 0]"

definition example_time :: Time where
  "example_time = \<lparr>unix_sec = 1700000000, unix_nsec = 0\<rparr>"

definition unsynced_upstream :: UpstreamClient where
  "unsynced_upstream =
     \<lparr>clockOffset = 0, lastSync = zeroTime,
      syncStatus = \<lparr>Synchronized = False, ActiveServer = [], ss_Stratum = 0, Offset = 0,
        RTT = 0, LastSync = zeroTime, LastError = ''All upstream servers failed''\<rparr>\<rparr>"

definition synced_upstream :: UpstreamClient where
  "synced_upstream =
     \<lparr>clockOffset = 0, lastSync = example_time,
      syncStatus = \<lparr>Synchronized = True, ActiveServer = ''time.google.com'', ss_Stratum = 1,
        Offset = 0, RTT = 0, LastSync = example_time, LastError = []\<rparr>\<rparr>"

definition example_attack_env :: AttackEnv where
  "example_attack_env =
     \<lparr>parsedCustomTime = None, sinceNow = example_time, updateNow = example_time,
      rand1 = 2, rand2 = 17, rand3 = 0\<rparr>"

definition example_env :: RequestEnv where
  "example_env =
     \<lparr>clientsNow = example_time, currentNow = example_time, receiveNow = example_time,
      transmitNow = example_time, lookupFailed = True, lookupIPs = [],
      attackEnv = example_attack_env, writeFailed = False\<rparr>"

text \<open>\<open>config.DefaultConfig()\<close>, the security section.\<close>

definition default_security :: SecurityConfig where
  "default_security =
     \<lparr>sec_Enabled = False, ActiveAttack = [],
      TimeSpoofing = \<lparr>ts_Enabled = False, OffsetSecs = 3600, CustomTime = []\<rparr>,
      TimeDrift = \<lparr>td_Enabled = False, DriftPerSec = 1 / 1000, MaxDrift = 60,
        Direction = ''forward''\<rparr>,
      KissOfDeath = \<lparr>kod_Enabled = False, kod_Code = ''DENY'', kod_Interval = 0\<rparr>,
      StratumAttack = \<lparr>sa_Enabled = False, FakeStratum = 1\<rparr>,
      LeapSecond = \<lparr>ls_Enabled = False, ls_LeapIndicator = 1\<rparr>,
      Rollover = \<lparr>ro_Enabled = False, TargetYear = 2038, ro_Mode = ''y2k38''\<rparr>,
      ClockStep = \<lparr>cs_Enabled = False, StepSecs = 3600, cs_Interval = 5\<rparr>,
      Fuzzing = \<lparr>fz_Enabled = False, fz_Mode = []\<rparr>\<rparr>"

definition engine_with :: "SecurityConfig \<Rightarrow> AttackEngine" where
  "engine_with sc =
     \<lparr>cfg = \<lparr>Security = sc\<rparr>,
      driftState = \<lparr>StartTime = example_time, CurrentDrift = 0, LastUpdate = zeroTime\<rparr>,
      requestCount = Map.empty\<rparr>"

definition disabled_engine :: AttackEngine where
  "disabled_engine = engine_with default_security"

definition stratum_engine :: "int \<Rightarrow> AttackEngine" where
  "stratum_engine n =
     engine_with (default_security\<lparr>sec_Enabled := True, ActiveAttack := ''stratum_attack'',
       StratumAttack := \<lparr>sa_Enabled = True, FakeStratum = n\<rparr>\<rparr>)"

definition fuzzing_engine :: AttackEngine where
  "fuzzing_engine =
     engine_with (default_security\<lparr>sec_Enabled := True, ActiveAttack := ''fuzzing'',
       Fuzzing := \<lparr>fz_Enabled = True, fz_Mode = []\<rparr>\<rparr>)"

definition kod_engine :: AttackEngine where
  "kod_engine =
     engine_with (default_security\<lparr>sec_Enabled := True, ActiveAttack := ''kiss_of_death'',
       KissOfDeath := \<lparr>kod_Enabled = True, kod_Code = ''RATE'', kod_Interval = 0\<rparr>\<rparr>)"

definition rollover_engine :: AttackEngine where
  "rollover_engine =
     engine_with (default_security\<lparr>sec_Enabled := True, ActiveAttack := ''rollover'',
       Rollover := \<lparr>ro_Enabled = True, TargetYear = 2038, ro_Mode = ''y2k38''\<rparr>\<rparr>)"

definition example_server :: Server where
  "example_server =
     \<lparr>upstream = unsynced_upstream, attackEngine = disabled_engine,
      stats = \<lparr>TotalRequests = 0, TotalResponses = 0, ActiveClients = Map.empty,
        ErrorCount = 0, AttacksExecuted = 0\<rparr>\<rparr>"

section \<open>Bytes and words\<close>

lemma mask_3_byte: "(7::byte) = mask 3"
  by (simp add: mask_eq_exp_minus_1)

lemma mask_2_byte: "(3::byte) = mask 2"
  by (simp add: mask_eq_exp_minus_1)

text \<open>The three fields of the first byte put together give the byte back.\<close>

lemma first_byte:
  "push_bit 6 (drop_bit 6 (x::byte) AND 3) OR push_bit 3 (drop_bit 3 x AND 7) OR (x AND 7) = x"
  unfolding mask_3_byte mask_2_byte
  apply (rule bit_word_eqI)
  apply (auto simp: bit_simps)
  subgoal for n by (cases "6 \<le> n") auto
  done

lemma first_byte_simp:
  "push_bit 6 (drop_bit 6 (x::byte)) AND 192 OR push_bit 3 (drop_bit 3 x) AND 56 OR x AND 7 = x"
  using first_byte [of x] by simp

lemma lt_pow_bit:
  fixes w :: byte
  assumes "w < 2 ^ k" "bit w n"
  shows "n < k"
proof -
  have "w AND mask k = w"
    using assms(1) by (rule less_mask_eq)
  then have "bit (w AND mask k) n"
    using assms(2) by simp
  then show ?thesis
    by (simp add: bit_and_iff bit_mask_iff)
qed

text \<open>Fields that fit their width are read back from the first byte.\<close>

lemma first_byte_fields:
  fixes li v m x :: byte
  assumes "li \<le> 3" "v \<le> 7" "m \<le> 7"
    and x: "x = push_bit 6 li OR push_bit 3 v OR m"
  shows "drop_bit 6 x AND 3 = li"
    and "drop_bit 3 x AND 7 = v"
    and "x AND 7 = m"
proof -
  have "li < 2 ^ 2" "v < 2 ^ 3" "m < 2 ^ 3"
    using assms(1-3) by (simp_all add: word_less_nat_alt word_le_nat_alt)
  then have li: "\<And>n. bit li n \<Longrightarrow> n < 2" and v: "\<And>n. bit v n \<Longrightarrow> n < 3"
    and m: "\<And>n. bit m n \<Longrightarrow> n < 3"
    using lt_pow_bit by blast+
  show "drop_bit 6 x AND 3 = li"
    unfolding mask_2_byte x
    by (rule bit_word_eqI) (auto simp: bit_simps dest: li v m)
  show "drop_bit 3 x AND 7 = v"
    unfolding mask_3_byte x
    by (rule bit_word_eqI) (auto simp: bit_simps dest: li v m)
  show "x AND 7 = m"
    unfolding mask_3_byte x
    by (rule bit_word_eqI) (auto simp: bit_simps dest: li v m)
qed

lemma and_3_le: "(x::byte) AND 3 \<le> 3"
  by (rule word_and_le1)

lemma and_7_le: "(x::byte) AND 7 \<le> 7"
  by (rule word_and_le1)

text \<open>Big-endian: the four bytes of a word, and the word of four bytes.\<close>

lemma Uint32_b0: "ucast (drop_bit 24 (Uint32 [a, b, c, d])) = a"
  unfolding Uint32_def by (rule bit_word_eqI) (auto simp: bit_simps dest: bit_imp_le_length)

lemma Uint32_b1: "ucast (drop_bit 16 (Uint32 [a, b, c, d])) = b"
  unfolding Uint32_def by (rule bit_word_eqI) (auto simp: bit_simps dest: bit_imp_le_length)

lemma Uint32_b2: "ucast (drop_bit 8 (Uint32 [a, b, c, d])) = c"
  unfolding Uint32_def by (rule bit_word_eqI) (auto simp: bit_simps dest: bit_imp_le_length)

lemma Uint32_b3: "ucast (Uint32 [a, b, c, d]) = d"
  unfolding Uint32_def by (rule bit_word_eqI) (auto simp: bit_simps dest: bit_imp_le_length)

lemma Uint32_split:
  "Uint32 [ucast (drop_bit 24 v), ucast (drop_bit 16 v), ucast (drop_bit 8 v), ucast v] = v"
  unfolding Uint32_def
  apply (rule bit_word_eqI)
  apply (auto simp: bit_simps dest: bit_imp_le_length)
  subgoal for n by (cases "24 \<le> n") auto
  done

lemma Uint32_slice4:
  "lo + 4 \<le> length b \<Longrightarrow> hi = lo + 4 \<Longrightarrow>
   Uint32 (slice b lo hi) = Uint32 [b ! lo, b ! (lo + 1), b ! (lo + 2), b ! (lo + 3)]"
  by (simp add: Uint32_def slice_def add.commute)

lemma replicate_48:
  "replicate 48 (0::byte) =
     [0, 0, 0, 0, 0, 0, 0, 0, 0, 0, 0, 0, 0, 0, 0, 0, 0, 0, 0, 0, 0, 0, 0, 0,
      0, 0, 0, 0, 0, 0, 0, 0, 0, 0, 0, 0, 0, 0, 0, 0, 0, 0, 0, 0, 0, 0, 0, 0]"
  by (simp add: numeral_eq_Suc)

lemma list_update_Cons_numeral: "(x # xs)[numeral v := y] = x # xs[numeral v - 1 := y]"
  by (cases "numeral v :: nat") simp_all

lemma list_48:
  assumes "length xs = 48"
  shows "xs =
     [xs ! 0, xs ! 1, xs ! 2, xs ! 3, xs ! 4, xs ! 5, xs ! 6, xs ! 7, xs ! 8, xs ! 9,
      xs ! 10, xs ! 11, xs ! 12, xs ! 13, xs ! 14, xs ! 15, xs ! 16, xs ! 17, xs ! 18,
      xs ! 19, xs ! 20, xs ! 21, xs ! 22, xs ! 23, xs ! 24, xs ! 25, xs ! 26, xs ! 27,
      xs ! 28, xs ! 29, xs ! 30, xs ! 31, xs ! 32, xs ! 33, xs ! 34, xs ! 35, xs ! 36,
      xs ! 37, xs ! 38, xs ! 39, xs ! 40, xs ! 41, xs ! 42, xs ! 43, xs ! 44, xs ! 45,
      xs ! 46, xs ! 47]"
proof -
  have "map ((!) xs) [0..<48] = xs"
    using assms map_nth [of xs] by simp
  moreover have "map ((!) xs) [0..<48] =
     [xs ! 0, xs ! 1, xs ! 2, xs ! 3, xs ! 4, xs ! 5, xs ! 6, xs ! 7, xs ! 8, xs ! 9,
      xs ! 10, xs ! 11, xs ! 12, xs ! 13, xs ! 14, xs ! 15, xs ! 16, xs ! 17, xs ! 18,
      xs ! 19, xs ! 20, xs ! 21, xs ! 22, xs ! 23, xs ! 24, xs ! 25, xs ! 26, xs ! 27,
      xs ! 28, xs ! 29, xs ! 30, xs ! 31, xs ! 32, xs ! 33, xs ! 34, xs ! 35, xs ! 36,
      xs ! 37, xs ! 38, xs ! 39, xs ! 40, xs ! 41, xs ! 42, xs ! 43, xs ! 44, xs ! 45,
      xs ! 46, xs ! 47]"
    by (simp add: upt_rec numeral_eq_Suc)
  ultimately show ?thesis
    by simp
qed

section \<open>The wire codec\<close>

text \<open>\<open>Bytes\<close> written out: the 48 bytes of a packet.\<close>

lemma Bytes_list:
  "Bytes p =
     [push_bit 6 (LeapIndicator p) OR push_bit 3 (Version p) OR Mode p, Stratum p, Poll p,
      Precision p,
      ucast (drop_bit 24 (RootDelay p)), ucast (drop_bit 16 (RootDelay p)),
      ucast (drop_bit 8 (RootDelay p)), ucast (RootDelay p),
      ucast (drop_bit 24 (RootDisp p)), ucast (drop_bit 16 (RootDisp p)),
      ucast (drop_bit 8 (RootDisp p)), ucast (RootDisp p),
      ucast (drop_bit 24 (ReferenceID p)), ucast (drop_bit 16 (ReferenceID p)),
      ucast (drop_bit 8 (ReferenceID p)), ucast (ReferenceID p),
      ucast (drop_bit 24 (RefTimeSec p)), ucast (drop_bit 16 (RefTimeSec p)),
      ucast (drop_bit 8 (RefTimeSec p)), ucast (RefTimeSec p),
      ucast (drop_bit 24 (RefTimeFrac p)), ucast (drop_bit 16 (RefTimeFrac p)),
      ucast (drop_bit 8 (RefTimeFrac p)), ucast (RefTimeFrac p),
      ucast (drop_bit 24 (OrigTimeSec p)), ucast (drop_bit 16 (OrigTimeSec p)),
      ucast (drop_bit 8 (OrigTimeSec p)), ucast (OrigTimeSec p),
      ucast (drop_bit 24 (OrigTimeFrac p)), ucast (drop_bit 16 (OrigTimeFrac p)),
      ucast (drop_bit 8 (OrigTimeFrac p)), ucast (OrigTimeFrac p),
      ucast (drop_bit 24 (RecvTimeSec p)), ucast (drop_bit 16 (RecvTimeSec p)),
      ucast (drop_bit 8 (RecvTimeSec p)), ucast (RecvTimeSec p),
      ucast (drop_bit 24 (RecvTimeFrac p)), ucast (drop_bit 16 (RecvTimeFrac p)),
      ucast (drop_bit 8 (RecvTimeFrac p)), ucast (RecvTimeFrac p),
      ucast (drop_bit 24 (XmitTimeSec p)), ucast (drop_bit 16 (XmitTimeSec p)),
      ucast (drop_bit 8 (XmitTimeSec p)), ucast (XmitTimeSec p),
      ucast (drop_bit 24 (XmitTimeFrac p)), ucast (drop_bit 16 (XmitTimeFrac p)),
      ucast (drop_bit 8 (XmitTimeFrac p)), ucast (XmitTimeFrac p)]"
  unfolding Bytes_def PutUint32_def NTPPacketSize_def Let_def replicate_48
  by (simp add: list_update_Cons_numeral)

lemma length_Bytes: "length (Bytes p) = 48"
  by (simp add: Bytes_list)

lemma ParsePacket_48:
  assumes "48 \<le> length b"
  shows "ParsePacket b = Inr (zeroPacket\<lparr>
          LeapIndicator := drop_bit 6 (b ! 0) AND 3,
          Version := drop_bit 3 (b ! 0) AND 7,
          Mode := (b ! 0) AND 7,
          Stratum := b ! 1,
          Poll := b ! 2,
          Precision := b ! 3,
          RootDelay := Uint32 [b ! 4, b ! 5, b ! 6, b ! 7],
          RootDisp := Uint32 [b ! 8, b ! 9, b ! 10, b ! 11],
          ReferenceID := Uint32 [b ! 12, b ! 13, b ! 14, b ! 15],
          RefTimeSec := Uint32 [b ! 16, b ! 17, b ! 18, b ! 19],
          RefTimeFrac := Uint32 [b ! 20, b ! 21, b ! 22, b ! 23],
          OrigTimeSec := Uint32 [b ! 24, b ! 25, b ! 26, b ! 27],
          OrigTimeFrac := Uint32 [b ! 28, b ! 29, b ! 30, b ! 31],
          RecvTimeSec := Uint32 [b ! 32, b ! 33, b ! 34, b ! 35],
          RecvTimeFrac := Uint32 [b ! 36, b ! 37, b ! 38, b ! 39],
          XmitTimeSec := Uint32 [b ! 40, b ! 41, b ! 42, b ! 43],
          XmitTimeFrac := Uint32 [b ! 44, b ! 45, b ! 46, b ! 47]\<rparr>)"
  using assms by (simp add: ParsePacket_def NTPPacketMinSize_def Let_def Uint32_slice4)

lemma ParsePacket_Inr_length: "ParsePacket b = Inr p \<Longrightarrow> 48 \<le> length b"
  by (simp add: ParsePacket_def NTPPacketMinSize_def split: if_splits)

lemma Bytes_ParsePacket:
  assumes "length b = 48" and P: "ParsePacket b = Inr p"
  shows "Bytes p = b"
proof -
  have p: "p = zeroPacket\<lparr>
          LeapIndicator := drop_bit 6 (b ! 0) AND 3,
          Version := drop_bit 3 (b ! 0) AND 7,
          Mode := (b ! 0) AND 7,
          Stratum := b ! 1,
          Poll := b ! 2,
          Precision := b ! 3,
          RootDelay := Uint32 [b ! 4, b ! 5, b ! 6, b ! 7],
          RootDisp := Uint32 [b ! 8, b ! 9, b ! 10, b ! 11],
          ReferenceID := Uint32 [b ! 12, b ! 13, b ! 14, b ! 15],
          RefTimeSec := Uint32 [b ! 16, b ! 17, b ! 18, b ! 19],
          RefTimeFrac := Uint32 [b ! 20, b ! 21, b ! 22, b ! 23],
          OrigTimeSec := Uint32 [b ! 24, b ! 25, b ! 26, b ! 27],
          OrigTimeFrac := Uint32 [b ! 28, b ! 29, b ! 30, b ! 31],
          RecvTimeSec := Uint32 [b ! 32, b ! 33, b ! 34, b ! 35],
          RecvTimeFrac := Uint32 [b ! 36, b ! 37, b ! 38, b ! 39],
          XmitTimeSec := Uint32 [b ! 40, b ! 41, b ! 42, b ! 43],
          XmitTimeFrac := Uint32 [b ! 44, b ! 45, b ! 46, b ! 47]\<rparr>"
    using P ParsePacket_48 [of b] assms(1) by simp
  have "Bytes p =
     [b ! 0, b ! 1, b ! 2, b ! 3, b ! 4, b ! 5, b ! 6, b ! 7, b ! 8, b ! 9, b ! 10, b ! 11,
      b ! 12, b ! 13, b ! 14, b ! 15, b ! 16, b ! 17, b ! 18, b ! 19, b ! 20, b ! 21,
      b ! 22, b ! 23, b ! 24, b ! 25, b ! 26, b ! 27, b ! 28, b ! 29, b ! 30, b ! 31,
      b ! 32, b ! 33, b ! 34, b ! 35, b ! 36, b ! 37, b ! 38, b ! 39, b ! 40, b ! 41,
      b ! 42, b ! 43, b ! 44, b ! 45, b ! 46, b ! 47]"
    unfolding Bytes_list p
    by (simp add: Uint32_b0 Uint32_b1 Uint32_b2 Uint32_b3 first_byte_simp)
  also have "\<dots> = b"
    using list_48 [OF assms(1)] by simp
  finally show ?thesis .
qed

lemma ParsePacket_Bytes:
  assumes "LeapIndicator p \<le> 3" "Version p \<le> 7" "Mode p \<le> 7"
  shows "ParsePacket (Bytes p) = Inr p"
proof -
  define x where "x = push_bit 6 (LeapIndicator p) OR push_bit 3 (Version p) OR Mode p"
  note fb = first_byte_fields [OF assms x_def]
  have "ParsePacket (Bytes p) = Inr (zeroPacket\<lparr>
          LeapIndicator := LeapIndicator p,
          Version := Version p,
          Mode := Mode p,
          Stratum := Stratum p,
          Poll := Poll p,
          Precision := Precision p,
          RootDelay := RootDelay p,
          RootDisp := RootDisp p,
          ReferenceID := ReferenceID p,
          RefTimeSec := RefTimeSec p,
          RefTimeFrac := RefTimeFrac p,
          OrigTimeSec := OrigTimeSec p,
          OrigTimeFrac := OrigTimeFrac p,
          RecvTimeSec := RecvTimeSec p,
          RecvTimeFrac := RecvTimeFrac p,
          XmitTimeSec := XmitTimeSec p,
          XmitTimeFrac := XmitTimeFrac p\<rparr>)"
    unfolding ParsePacket_def Let_def length_Bytes NTPPacketMinSize_def
    unfolding Bytes_list slice_def x_def [symmetric]
    by (simp add: Uint32_split fb)
  also have "\<dots> = Inr p"
    by (simp add: zeroPacket_def)
  finally show ?thesis .
qed

lemma ParsePacket_fields_fit:
  assumes "ParsePacket b = Inr p"
  shows "LeapIndicator p \<le> 3 \<and> Version p \<le> 7 \<and> Mode p \<le> 7"
proof -
  have "48 \<le> length b"
    using assms by (rule ParsePacket_Inr_length)
  from ParsePacket_48 [OF this] assms show ?thesis
    by (auto simp: and_3_le and_7_le)
qed

lemma example_parse: "ParsePacket example_data = Inr example_request"
  by (simp add: ParsePacket_def example_data_def example_request_def NTPPacketMinSize_def
      Let_def slice_def Uint32_def zeroPacket_def)

lemma example_valid: "IsValidClientRequest example_request"
  by (simp add: IsValidClientRequest_def example_request_def ModeClient_def
      VersionNTPv3_def VersionNTPv4_def zeroPacket_def)

text \<open>
  C2. For every byte sequence \<open>b\<close> of exactly 48 bytes, parsing succeeds and serializing
  the parsed packet gives \<open>b\<close> back: \<open>Bytes(ParsePacket(b)) = b\<close>.
\<close>

theorem Bytes_ParsePacket_roundtrip:
  "length b = 48 \<Longrightarrow> \<exists>p. ParsePacket b = Inr p \<and> Bytes p = b"
proof -
  assume len: "length b = 48"
  then obtain p where p: "ParsePacket b = Inr p"
    using ParsePacket_48 [of b] by simp
  with len have "Bytes p = b"
    by (rule Bytes_ParsePacket)
  with p show ?thesis by blast
qed

theorem Bytes_ParsePacket_roundtrip_witness:
  "length example_data = 48 \<and>
   (\<exists>p. ParsePacket example_data = Inr p \<and> Bytes p = example_data)"
proof -
  have len: "length example_data = 48"
    by (simp add: example_data_def)
  from len Bytes_ParsePacket_roundtrip [OF len] show ?thesis by simp
qed

text \<open>
  C3, as the claim states it, fails: a packet whose \<open>LeapIndicator\<close> is 4 does not come
  back from its serialization, since the first byte keeps two bits of the leap
  indicator; the packet parsed has \<open>LeapIndicator = 0\<close>.
\<close>

theorem ParsePacket_Bytes_counterexample:
  "ParsePacket (Bytes (zeroPacket\<lparr>LeapIndicator := 4\<rparr>)) \<noteq> Inr (zeroPacket\<lparr>LeapIndicator := 4\<rparr>)"
proof -
  have "ParsePacket (Bytes (zeroPacket\<lparr>LeapIndicator := 4\<rparr>)) = Inr zeroPacket"
    unfolding ParsePacket_def Let_def length_Bytes NTPPacketMinSize_def
    unfolding Bytes_list slice_def
    by (simp add: zeroPacket_def Uint32_def)
  then show ?thesis
    by (simp add: zeroPacket_def)
qed

text \<open>
  C3, amended. Parsing the serialization of a packet \<open>p\<close> returns \<open>p\<close> exactly when the
  three fields of the first byte fit their widths: \<open>LeapIndicator \<le> 3\<close> (2 bits),
  \<open>Version \<le> 7\<close> and \<open>Mode \<le> 7\<close> (3 bits each). The other fields are unrestricted.
\<close>

theorem ParsePacket_Bytes_roundtrip:
  "ParsePacket (Bytes p) = Inr p \<longleftrightarrow> LeapIndicator p \<le> 3 \<and> Version p \<le> 7 \<and> Mode p \<le> 7"
  using ParsePacket_Bytes [of p] ParsePacket_fields_fit [of "Bytes p" p] by blast

theorem ParsePacket_Bytes_roundtrip_witness:
  "LeapIndicator example_request \<le> 3 \<and> Version example_request \<le> 7 \<and>
   Mode example_request \<le> 7 \<and> ParsePacket (Bytes example_request) = Inr example_request"
proof -
  have "LeapIndicator example_request \<le> 3 \<and> Version example_request \<le> 7 \<and>
    Mode example_request \<le> 7"
    by (simp add: example_request_def zeroPacket_def)
  with ParsePacket_Bytes_roundtrip [of example_request] show ?thesis by simp
qed

text \<open>
  C10. For every packet \<open>p\<close> and every string \<open>code\<close> whose length is not 4,
  \<open>SetKissOfDeathCode\<close> returns an error and leaves every field of \<open>p\<close> as it was;
  with a code of length 4 it returns no error, forces \<open>Stratum\<close> to 0 and stores the
  code in \<open>ReferenceID\<close>.
\<close>

theorem SetKissOfDeathCode_error_leaves_packet:
  "(length code \<noteq> 4 \<longrightarrow> SetKissOfDeathCode p code = (p, Some KissCodeLength)) \<and>
   (length code = 4 \<longrightarrow>
      SetKissOfDeathCode p code =
        (p\<lparr>Stratum := 0, ReferenceID := Uint32 (bytes_of_string code)\<rparr>, None))"
  by (simp add: SetKissOfDeathCode_def)

theorem SetKissOfDeathCode_error_leaves_packet_witness:
  "length ''TOOLONG'' \<noteq> 4 \<and> length ''DENY'' = 4 \<and>
   SetKissOfDeathCode NewPacket ''TOOLONG'' = (NewPacket, Some KissCodeLength) \<and>
   SetKissOfDeathCode NewPacket ''DENY'' =
     (NewPacket\<lparr>Stratum := 0, ReferenceID := Uint32 (bytes_of_string ''DENY'')\<rparr>, None)"
  using SetKissOfDeathCode_error_leaves_packet [of "''TOOLONG''" NewPacket]
    SetKissOfDeathCode_error_leaves_packet [of "''DENY''" NewPacket]
  by simp

section \<open>The request engine\<close>

lemma buildResponse_fields:
  "Mode (buildResponse up env ct packet) = ModeServer"
  "Version (buildResponse up env ct packet) = Version packet"
  "OrigTimeSec (buildResponse up env ct packet) = XmitTimeSec packet"
  "OrigTimeFrac (buildResponse up env ct packet) = XmitTimeFrac packet"
  "Stratum (buildResponse up env ct packet) = GetStratum up"
  "LeapIndicator (buildResponse up env ct packet) = LeapNoWarning"
  "ReferenceID (buildResponse up env ct packet) =
     GetReferenceID up (lookupFailed env) (lookupIPs env)"
  by (simp_all add: buildResponse_def Let_def NewPacket_def SetOriginTime_def
      SetReceiveTime_def SetReferenceTime_def SetTransmitTime_def)

lemma processRequest_disabled:
  assumes "ParsePacket data = Inr packet" "IsValidClientRequest packet"
    "\<not> IsEnabled (attackEngine s)"
  shows "snd (processRequest s env data client) =
     Some (Bytes (buildResponse (upstream s) env
       (GetCurrentTime (upstream s) (currentNow env)) packet))"
  using assms by (simp add: processRequest_def attackStage_def Let_def)

lemma less_8_cases: "i < (8::nat) \<Longrightarrow> i = 0 \<or> i = 1 \<or> i = 2 \<or> i = 3 \<or> i = 4 \<or> i = 5 \<or> i = 6 \<or> i = 7"
  by arith

lemma origin_bytes:
  assumes "48 \<le> length data" 
    and "OrigTimeSec r = Uint32 [data ! 40, data ! 41, data ! 42, data ! 43]"
    and "OrigTimeFrac r = Uint32 [data ! 44, data ! 45, data ! 46, data ! 47]"
  shows "slice (Bytes r) 24 32 = slice data 40 48"
proof (rule nth_equalityI)
  show "length (slice (Bytes r) 24 32) = length (slice data 40 48)"
    using assms(1) by (simp add: slice_def length_Bytes)
next
  fix i assume "i < length (slice (Bytes r) 24 32)"
  then have i: "i < 8"
    by (simp add: slice_def length_Bytes)
  then have "slice (Bytes r) 24 32 ! i = Bytes r ! (24 + i)"
    "slice data 40 48 ! i = data ! (40 + i)"
    using assms(1) by (simp_all add: slice_def length_Bytes)
  moreover have "Bytes r ! (24 + i) = data ! (40 + i)"
    using less_8_cases [OF i] unfolding Bytes_list assms(2,3)
    by (auto simp: Uint32_b0 Uint32_b1 Uint32_b2 Uint32_b3)
  ultimately show "slice (Bytes r) 24 32 ! i = slice data 40 48 ! i"
    by simp
qed

text \<open>
  C1. For every valid client request (mode 3, version 3 or 4) the response that the
  request engine builds has mode 4 (server), the version of the request, and an origin
  timestamp equal to the transmit timestamp of the request, word for word: bytes 24 to
  31 of the serialized response are bytes 40 to 47 of the request datagram. With the
  attack engine off, this response is the datagram sent.
\<close>

theorem response_echoes_request:
  assumes "ParsePacket data = Inr packet" and "IsValidClientRequest packet"
  shows "let response = buildResponse (upstream s) env
                          (GetCurrentTime (upstream s) (currentNow env)) packet
     in Mode response = 4 \<and> Version response = Version packet \<and>
        (Version response = 3 \<or> Version response = 4) \<and>
        OrigTimeSec response = XmitTimeSec packet \<and>
        OrigTimeFrac response = XmitTimeFrac packet \<and>
        slice (Bytes response) 24 32 = slice data 40 48 \<and>
        (\<not> IsEnabled (attackEngine s) \<longrightarrow>
           snd (processRequest s env data client) = Some (Bytes response))"
proof -
  define response where "response = buildResponse (upstream s) env
                          (GetCurrentTime (upstream s) (currentNow env)) packet"
  have len: "48 \<le> length data"
    using assms(1) by (rule ParsePacket_Inr_length)
  have x: "XmitTimeSec packet = Uint32 [data ! 40, data ! 41, data ! 42, data ! 43]"
    "XmitTimeFrac packet = Uint32 [data ! 44, data ! 45, data ! 46, data ! 47]"
    using ParsePacket_48 [OF len] assms(1) by auto
  have "slice (Bytes response) 24 32 = slice data 40 48"
    by (rule origin_bytes [OF len]) (simp_all add: response_def buildResponse_fields x)
  moreover have "Version packet = 3 \<or> Version packet = 4"
    using assms(2) by (simp add: IsValidClientRequest_def VersionNTPv3_def VersionNTPv4_def)
  moreover have "\<not> IsEnabled (attackEngine s) \<longrightarrow>
           snd (processRequest s env data client) = Some (Bytes response)"
    using processRequest_disabled [OF assms] by (simp add: response_def)
  ultimately show ?thesis
    unfolding response_def [symmetric] Let_def
    by (simp add: response_def buildResponse_fields ModeServer_def)
qed

theorem response_echoes_request_witness:
  "ParsePacket example_data = Inr example_request \<and> IsValidClientRequest example_request \<and>
   \<not> IsEnabled (attackEngine example_server) \<and>
   (let response = buildResponse (upstream example_server) example_env
                          (GetCurrentTime (upstream example_server) (currentNow example_env))
                          example_request
     in Mode response = 4 \<and> Version response = 4 \<and>
        OrigTimeSec response = 0xE2A1B2C3 \<and> OrigTimeFrac response = 0 \<and>
        slice (Bytes response) 24 32 = [0xE2, 0xA1, 0xB2, 0xC3, 0, 0, 0, 0] \<and>
        snd (processRequest example_server example_env example_data ''192.0.2.7:123'') =
          Some (Bytes response))"
proof -
  have off: "\<not> IsEnabled (attackEngine example_server)"
    by (simp add: IsEnabled_def example_server_def disabled_engine_def engine_with_def
        default_security_def)
  have sl: "slice example_data 40 48 = [0xE2, 0xA1, 0xB2, 0xC3, 0, 0, 0, 0]"
    by (simp add: slice_def example_data_def)
  have req: "Version example_request = 4" "XmitTimeSec example_request = 0xE2A1B2C3"
    "XmitTimeFrac example_request = 0"
    by (simp_all add: example_request_def zeroPacket_def)
  show ?thesis
    using response_echoes_request [OF example_parse example_valid, of example_server
        example_env "''192.0.2.7:123''"] off
    by (simp add: Let_def example_parse example_valid sl req)
qed

text \<open>
  C5, as the claim states it, fails: with an upstream tracker that is not synchronized,
  the response built has leap indicator 0, not 3.
\<close>

theorem unsynchronized_response_counterexample:
  "\<not> Synchronized (syncStatus unsynced_upstream) \<and>
   LeapIndicator (buildResponse unsynced_upstream example_env example_time example_request) \<noteq> 3"
  by (simp add: buildResponse_fields LeapNoWarning_def unsynced_upstream_def)

text \<open>
  C5, amended. When the upstream tracker reports unsynchronized, every response built
  by the request engine has stratum 16 and leap indicator 0 (no warning), the value
  \<open>NewPacket\<close> gives it: the request engine never writes the leap indicator. With the
  attack engine off, the attack stage returns this response unchanged.
\<close>

theorem unsynchronized_response_stratum:
  assumes "\<not> Synchronized (syncStatus up)"
  shows "Stratum (buildResponse up env ct packet) = 16 \<and>
         LeapIndicator (buildResponse up env ct packet) = 0 \<and>
         (\<not> IsEnabled e \<longrightarrow>
            attackStage e aenv (buildResponse up env ct packet) client ct
              = (e, buildResponse up env ct packet, []))"
  using assms
  by (simp add: buildResponse_fields GetStratum_def LeapNoWarning_def attackStage_def)

theorem unsynchronized_response_stratum_witness:
  "\<not> Synchronized (syncStatus unsynced_upstream) \<and> \<not> IsEnabled disabled_engine \<and>
   Stratum (buildResponse unsynced_upstream example_env example_time example_request) = 16 \<and>
   LeapIndicator (buildResponse unsynced_upstream example_env example_time example_request) = 0 \<and>
   attackStage disabled_engine example_attack_env
     (buildResponse unsynced_upstream example_env example_time example_request)
     ''192.0.2.7:123'' example_time
   = (disabled_engine,
      buildResponse unsynced_upstream example_env example_time example_request, [])"
proof -
  have u: "\<not> Synchronized (syncStatus unsynced_upstream)"
    by (simp add: unsynced_upstream_def)
  have off: "\<not> IsEnabled disabled_engine"
    by (simp add: IsEnabled_def disabled_engine_def engine_with_def default_security_def)
  show ?thesis
    using unsynchronized_response_stratum [OF u, of example_env example_time example_request
        disabled_engine example_attack_env "''192.0.2.7:123''"] u off
    by simp
qed

section \<open>The attack engine\<close>

lemma applyTimeDrift_engine:
  "requestCount (fst (applyTimeDrift e env p t)) = requestCount e"
  "cfg (fst (applyTimeDrift e env p t)) = cfg e"
  by (simp_all add: applyTimeDrift_def Let_def)

lemma ProcessPacket_requestCount:
  assumes "sec_Enabled (Security (cfg e))"
  shows "requestCount (fst (ProcessPacket e env p c t)) =
     (requestCount e)(c \<mapsto> count_of (requestCount e) c + 1)"
  using assms
  by (simp add: ProcessPacket_def Let_def applyTimeDrift_engine split: prod.splits)

lemma disabled_engine_off: "\<not> sec_Enabled (Security (cfg disabled_engine))"
  by (simp add: disabled_engine_def engine_with_def default_security_def)

lemma kod_engine_on: "sec_Enabled (Security (cfg kod_engine))"
  by (simp add: kod_engine_def engine_with_def default_security_def)

text \<open>
  C9, as the claim states it, fails: with security mode disabled, \<open>ProcessPacket\<close>
  returns before it touches the counter of the client.
\<close>

theorem ProcessPacket_counts_counterexample:
  "count_of (requestCount (fst (ProcessPacket disabled_engine example_attack_env NewPacket
      ''192.0.2.7:123'' example_time))) ''192.0.2.7:123''
   \<noteq> count_of (requestCount disabled_engine) ''192.0.2.7:123'' + 1"
  by (simp add: ProcessPacket_def disabled_engine_off)

text \<open>
  C9, amended. On every call of \<open>ProcessPacket\<close> with security mode enabled, for every
  client endpoint, every active attack and every other configuration, the counter of
  that endpoint is incremented by exactly one and no other counter changes; with
  security mode disabled the engine, the packet and the counters are returned as they
  were.
\<close>

theorem ProcessPacket_counts_when_enabled:
  "(sec_Enabled (Security (cfg e)) \<longrightarrow>
      count_of (requestCount (fst (ProcessPacket e env p c t))) c
        = count_of (requestCount e) c + 1 \<and>
      (\<forall>c'. c' \<noteq> c \<longrightarrow>
         requestCount (fst (ProcessPacket e env p c t)) c' = requestCount e c')) \<and>
   (\<not> sec_Enabled (Security (cfg e)) \<longrightarrow> ProcessPacket e env p c t = (e, p, []))"
proof (cases "sec_Enabled (Security (cfg e))")
  case True
  then show ?thesis
    by (simp add: ProcessPacket_requestCount count_of_def)
next
  case False
  then show ?thesis
    by (simp add: ProcessPacket_def)
qed

theorem ProcessPacket_counts_when_enabled_witness:
  "sec_Enabled (Security (cfg kod_engine)) \<and>
   \<not> sec_Enabled (Security (cfg disabled_engine)) \<and>
   ''192.0.2.9:123'' \<noteq> ''192.0.2.7:123'' \<and>
   count_of (requestCount (fst (ProcessPacket kod_engine example_attack_env NewPacket
      ''192.0.2.7:123'' example_time))) ''192.0.2.7:123'' = 1 \<and>
   requestCount (fst (ProcessPacket kod_engine example_attack_env NewPacket
      ''192.0.2.7:123'' example_time)) ''192.0.2.9:123'' = None \<and>
   ProcessPacket disabled_engine example_attack_env NewPacket ''192.0.2.7:123'' example_time
     = (disabled_engine, NewPacket, [])"
proof -
  have z: "requestCount kod_engine = Map.empty"
    by (simp add: kod_engine_def engine_with_def)
  have ne: "''192.0.2.9:123'' \<noteq> ''192.0.2.7:123''"
    by simp
  show ?thesis
    using ProcessPacket_counts_when_enabled [of kod_engine example_attack_env NewPacket
        "''192.0.2.7:123''" example_time]
      ProcessPacket_counts_when_enabled [of disabled_engine example_attack_env NewPacket
        "''192.0.2.7:123''" example_time]
      kod_engine_on disabled_engine_off ne
    by (simp add: z count_of_def)
qed

lemma ProcessPacket_stratum_attack:
  assumes "sec_Enabled (Security (cfg e))"
    and "ActiveAttack (Security (cfg e)) = ''stratum_attack''"
  shows "fst (snd (ProcessPacket e env p c t)) = fst (applyStratumLie e p)"
  using assms
  by (simp add: ProcessPacket_def Let_def applyStratumLie_def split: prod.splits)

lemma GPS_word: "Uint32 [0x47, 0x50, 0x53, 0] = 0x47505300"
  by (simp add: Uint32_def)

lemma GPS_bytes:
  "bytes_of_string [CHR ''G'', CHR ''P'', CHR ''S'', CHR 0x00] = [0x47, 0x50, 0x53, 0]"
  by (simp add: bytes_of_string_def)

lemma Bytes_ReferenceID:
  "slice (Bytes p) 12 16 =
     [ucast (drop_bit 24 (ReferenceID p)), ucast (drop_bit 16 (ReferenceID p)),
      ucast (drop_bit 8 (ReferenceID p)), ucast (ReferenceID p)]"
  by (simp add: Bytes_list slice_def)

lemma stratum_engine_cfg:
  "sec_Enabled (Security (cfg (stratum_engine n)))"
  "ActiveAttack (Security (cfg (stratum_engine n))) = ''stratum_attack''"
  "sa_Enabled (StratumAttack (Security (cfg (stratum_engine n))))"
  "FakeStratum (StratumAttack (Security (cfg (stratum_engine n)))) = n"
  by (simp_all add: stratum_engine_def engine_with_def default_security_def)

text \<open>
  C7, as the claim states it, fails: with \<open>fake_stratum = 20\<close> the response carries
  stratum 20, not 20 clamped to the range 0 to 15.
\<close>

theorem stratum_attack_counterexample:
  "sa_Enabled (StratumAttack (Security (cfg (stratum_engine 20)))) \<and>
   uint (Stratum (fst (snd (ProcessPacket (stratum_engine 20) example_attack_env NewPacket
      ''192.0.2.7:123'' example_time)))) \<noteq> max 0 (min 15 20)"
  by (simp add: ProcessPacket_stratum_attack stratum_engine_cfg applyStratumLie_def Let_def)

text \<open>
  C7, amended. For every enabled stratum attack with any configured \<open>fake_stratum\<close>,
  the stratum of the mutated response is \<open>fake_stratum\<close> converted to \<open>uint8\<close>, that is
  \<open>fake_stratum mod 256\<close> (so \<open>fake_stratum\<close> itself from 0 to 255, with no clamp to 15);
  when \<open>fake_stratum\<close> is 1 the reference ID is the ASCII bytes \<open>GPS\<close> and a zero byte,
  otherwise the reference ID is left as it was.
\<close>

theorem stratum_attack_sets_stratum:
  assumes "sec_Enabled (Security (cfg e))"
    and "ActiveAttack (Security (cfg e)) = ''stratum_attack''"
    and "sa_Enabled (StratumAttack (Security (cfg e)))"
  shows "let n = FakeStratum (StratumAttack (Security (cfg e)));
             response = fst (snd (ProcessPacket e env p c t))
         in uint (Stratum response) = n mod 256 \<and>
            (n = 1 \<longrightarrow> ReferenceID response = 0x47505300 \<and>
               slice (Bytes response) 12 16 = bytes_of_string (''GPS'' @ [CHR 0x00])) \<and>
            (n \<noteq> 1 \<longrightarrow> ReferenceID response = ReferenceID p)"
  unfolding ProcessPacket_stratum_attack [OF assms(1,2)] Let_def Bytes_ReferenceID
  using assms(3)
  by (simp add: applyStratumLie_def Let_def GPS_word GPS_bytes Uint32_b0 Uint32_b1 Uint32_b2
      Uint32_b3 uint_word_of_int take_bit_eq_mod)

theorem stratum_attack_sets_stratum_witness:
  "sec_Enabled (Security (cfg (stratum_engine 1))) \<and>
   ActiveAttack (Security (cfg (stratum_engine 1))) = ''stratum_attack'' \<and>
   sa_Enabled (StratumAttack (Security (cfg (stratum_engine 1)))) \<and>
   FakeStratum (StratumAttack (Security (cfg (stratum_engine 1)))) = 1 \<and>
   FakeStratum (StratumAttack (Security (cfg (stratum_engine 20)))) \<noteq> 1 \<and>
   (let response = fst (snd (ProcessPacket (stratum_engine 1) example_attack_env NewPacket
                               ''192.0.2.7:123'' example_time))
    in uint (Stratum response) = 1 \<and> ReferenceID response = 0x47505300 \<and>
       slice (Bytes response) 12 16 = [0x47, 0x50, 0x53, 0]) \<and>
   (let response = fst (snd (ProcessPacket (stratum_engine 20) example_attack_env NewPacket
                               ''192.0.2.7:123'' example_time))
    in uint (Stratum response) = 20 \<and> ReferenceID response = ReferenceID NewPacket)"
  using stratum_attack_sets_stratum [OF stratum_engine_cfg(1-3), of 1 example_attack_env
      NewPacket "''192.0.2.7:123''" example_time]
    stratum_attack_sets_stratum [OF stratum_engine_cfg(1-3), of 20 example_attack_env
      NewPacket "''192.0.2.7:123''" example_time]
  by (simp add: Let_def stratum_engine_cfg GPS_bytes)

section \<open>Stratum 0 in outgoing packets\<close>

lemma Set_times_keep:
  "Stratum (SetReceiveTime p t) = Stratum p"
  "Stratum (SetTransmitTime p t) = Stratum p"
  "Stratum (SetReferenceTime p t) = Stratum p"
  "LeapIndicator (SetReceiveTime p t) = LeapIndicator p"
  "LeapIndicator (SetTransmitTime p t) = LeapIndicator p"
  "LeapIndicator (SetReferenceTime p t) = LeapIndicator p"
  "ReferenceID (SetReceiveTime p t) = ReferenceID p"
  "ReferenceID (SetTransmitTime p t) = ReferenceID p"
  "ReferenceID (SetReferenceTime p t) = ReferenceID p"
  by (simp_all add: SetReceiveTime_def SetTransmitTime_def SetReferenceTime_def Let_def)

lemma time_attacks_keep_stratum:
  "Stratum (fst (applyTimeSpoofing e env p t)) = Stratum p"
  "Stratum (fst (snd (applyTimeDrift e env p t))) = Stratum p"
  "Stratum (fst (applyLeapSecond e p)) = Stratum p"
  "Stratum (fst (applyRollover e p)) = Stratum p"
  "Stratum (fst (applyClockStep e p t n)) = Stratum p"
  by (simp_all add: applyTimeSpoofing_def applyTimeDrift_def applyLeapSecond_def
      applyRollover_def applyClockStep_def Let_def Set_times_keep split: prod.splits)

lemma applyKissOfDeath_cases:
  "fst (applyKissOfDeath e p c n) = p \<or>
   Stratum (fst (applyKissOfDeath e p c n)) = 0 \<and>
   LeapIndicator (fst (applyKissOfDeath e p c n)) = 3 \<and>
   ReferenceID (fst (applyKissOfDeath e p c n)) = Uint32 (bytes_of_string (kod_code_sent e))"
  by (simp add: applyKissOfDeath_def Let_def SetKissOfDeathCode_def LeapAlarm_def
      kod_code_sent_def)

lemma GetStratum_nonzero:
  assumes "0 \<le> ss_Stratum (syncStatus up)"
  shows "GetStratum up \<noteq> 0"
proof (cases "Synchronized (syncStatus up)")
  case False
  then show ?thesis by (simp add: GetStratum_def)
next
  case True
  define k where "k = (if ss_Stratum (syncStatus up) + 1 > 15 then 15
    else ss_Stratum (syncStatus up) + 1)"
  have k: "1 \<le> k" "k \<le> 15"
    using assms by (simp_all add: k_def)
  have "uint (word_of_int k :: uint8) = k"
    using k by (simp add: uint_word_of_int take_bit_eq_mod)
  then have "(word_of_int k :: uint8) \<noteq> 0"
    using k by auto
  then show ?thesis
    using True by (simp add: GetStratum_def Let_def k_def)
qed

lemma ProcessPacket_packet:
  assumes "sec_Enabled (Security (cfg e))"
  shows "fst (snd (ProcessPacket e env p c t)) =
     (let e' = e\<lparr>requestCount :=
                  (requestCount e)(c \<mapsto> count_of (requestCount e) c + 1)\<rparr>;
          count = count_of (requestCount e') c;
          attack = ActiveAttack (Security (cfg e))
      in if attack = ''time_spoofing'' then fst (applyTimeSpoofing e' env p t)
         else if attack = ''time_drift'' then fst (snd (applyTimeDrift e' env p t))
         else if attack = ''kiss_of_death'' then fst (applyKissOfDeath e' p c count)
         else if attack = ''stratum_attack'' then fst (applyStratumLie e' p)
         else if attack = ''leap_second'' then fst (applyLeapSecond e' p)
         else if attack = ''rollover'' then fst (applyRollover e' p)
         else if attack = ''clock_step'' then fst (applyClockStep e' p t count)
         else if attack = ''fuzzing'' then fst (applyFuzzing e' env p)
         else p)"
  using assms by (simp add: ProcessPacket_def Let_def case_prod_beta)

lemma ProcessPacket_stratum_zero:
  assumes "ActiveAttack (Security (cfg e)) \<noteq> ''stratum_attack''"
    and "ActiveAttack (Security (cfg e)) \<noteq> ''fuzzing''"
    and "Stratum p \<noteq> 0"
    and "Stratum (fst (snd (ProcessPacket e env p c t))) = 0"
  shows "LeapIndicator (fst (snd (ProcessPacket e env p c t))) = 3 \<and>
     ReferenceID (fst (snd (ProcessPacket e env p c t))) =
       Uint32 (bytes_of_string (kod_code_sent e))"
proof (cases "sec_Enabled (Security (cfg e))")
  case False
  then show ?thesis using assms(3,4) by (simp add: ProcessPacket_def)
next
  case True
  define e' where "e' = e\<lparr>requestCount :=
                  (requestCount e)(c \<mapsto> count_of (requestCount e) c + 1)\<rparr>"
  have code: "kod_code_sent e' = kod_code_sent e"
    by (simp add: kod_code_sent_def e'_def)
  note pp = ProcessPacket_packet [OF True, of env p c t, unfolded Let_def,
      folded e'_def]
  show ?thesis
  proof (cases "ActiveAttack (Security (cfg e)) = ''kiss_of_death''")
    case kod: True
    then have pk: "fst (snd (ProcessPacket e env p c t)) =
      fst (applyKissOfDeath e' p c (count_of (requestCount e') c))"
      unfolding pp by simp
    show ?thesis
      using applyKissOfDeath_cases [of e' p c "count_of (requestCount e') c"] assms(3,4)
      unfolding pk code by auto
  next
    case other: False
    have "Stratum (fst (snd (ProcessPacket e env p c t))) = Stratum p"
      unfolding pp using other assms(1,2)
      by (simp add: time_attacks_keep_stratum)
    then show ?thesis using assms(3,4) by simp
  qed
qed


lemma processRequest_datagram:
  assumes "ParsePacket data = Inr packet" and "IsValidClientRequest packet"
  shows "snd (processRequest s env data client) =
     Some (Bytes (fst (snd (attackStage (attackEngine s) (attackEnv env)
       (buildResponse (upstream s) env (GetCurrentTime (upstream s) (currentNow env)) packet)
       client (GetCurrentTime (upstream s) (currentNow env))))))"
  using assms by (simp add: processRequest_def Let_def case_prod_beta)

lemma fuzzing_engine_cfg:
  "sec_Enabled (Security (cfg fuzzing_engine))"
  "ActiveAttack (Security (cfg fuzzing_engine)) = ''fuzzing''"
  "fz_Enabled (Fuzzing (Security (cfg fuzzing_engine)))"
  by (simp_all add: fuzzing_engine_def engine_with_def default_security_def)

lemma kod_engine_cfg:
  "ActiveAttack (Security (cfg kod_engine)) = ''kiss_of_death''"
  "KissOfDeath (Security (cfg kod_engine)) =
     \<lparr>kod_Enabled = True, kod_Code = ''RATE'', kod_Interval = 0\<rparr>"
  by (simp_all add: kod_engine_def engine_with_def default_security_def)

lemma length_4_list:
  assumes "length xs = 4"
  shows "\<exists>a b c d. xs = [a, b, c, d]"
  using assms by (simp add: numeral_eq_Suc length_Suc_conv) blast

text \<open>
  C6, as the claim states it, fails: with the fuzzing attack armed, mutation type 2 and
  a draw of 17 for the stratum, the outgoing packet has stratum 0 while its leap
  indicator is still 0.
\<close>

theorem stratum_zero_counterexample:
  "Stratum (fst (snd (attackStage fuzzing_engine example_attack_env
      (buildResponse unsynced_upstream example_env example_time example_request)
      ''192.0.2.7:123'' example_time))) = 0 \<and>
   LeapIndicator (fst (snd (attackStage fuzzing_engine example_attack_env
      (buildResponse unsynced_upstream example_env example_time example_request)
      ''192.0.2.7:123'' example_time))) \<noteq> 3"
  by (simp add: attackStage_def IsEnabled_def ProcessPacket_packet fuzzing_engine_cfg
      applyFuzzing_def Intn_def example_attack_env_def buildResponse_fields
      LeapNoWarning_def Let_def)

text \<open>
  C6, amended. For every outgoing packet (the response built by the request engine,
  after the attack stage) when the active attack is neither \<open>stratum_attack\<close> nor
  \<open>fuzzing\<close>, and with the non-negative upstream stratum that the tracker stores:
  stratum 0 implies leap indicator 3 (alarm) and a reference ID that holds the four
  bytes of the Kiss-of-Death code, the configured one or \<open>DENY\<close> when the configured
  code is not four bytes long. The stratum attack with a \<open>fake_stratum\<close> that is 0
  modulo 256 and the stratum mutation of the fuzzing attack send stratum 0 with neither.
\<close>

theorem stratum_zero_implies_kod:
  assumes "0 \<le> ss_Stratum (syncStatus up)"
    and "ActiveAttack (Security (cfg e)) \<noteq> ''stratum_attack''"
    and "ActiveAttack (Security (cfg e)) \<noteq> ''fuzzing''"
    and "Stratum (fst (snd (attackStage e aenv (buildResponse up env ct packet) client ct))) = 0"
  shows "LeapIndicator (fst (snd (attackStage e aenv (buildResponse up env ct packet) client ct)))
      = 3 \<and>
    ReferenceID (fst (snd (attackStage e aenv (buildResponse up env ct packet) client ct)))
      = Uint32 (bytes_of_string (kod_code_sent e)) \<and>
    length (kod_code_sent e) = 4 \<and>
    slice (Bytes (fst (snd (attackStage e aenv (buildResponse up env ct packet) client ct))))
      12 16 = bytes_of_string (kod_code_sent e)"
proof -
  define r where "r = buildResponse up env ct packet"
  define out where "out = fst (snd (attackStage e aenv r client ct))"
  have r: "Stratum r \<noteq> 0"
    using GetStratum_nonzero [OF assms(1)] by (simp add: r_def buildResponse_fields)
  have z: "Stratum out = 0"
    using assms(4) by (simp add: out_def r_def)
  have on: "IsEnabled e"
    using r z by (auto simp: out_def attackStage_def split: if_splits)
  then have out: "out = fst (snd (ProcessPacket e aenv r client ct))"
    by (simp add: out_def attackStage_def)
  have kod: "LeapIndicator out = 3 \<and>
    ReferenceID out = Uint32 (bytes_of_string (kod_code_sent e))"
    using ProcessPacket_stratum_zero [OF assms(2,3) r] z unfolding out by simp
  have len: "length (kod_code_sent e) = 4"
    by (simp add: kod_code_sent_def)
  then have "length (bytes_of_string (kod_code_sent e)) = 4"
    by (simp add: bytes_of_string_def)
  then obtain a b c d where abcd: "bytes_of_string (kod_code_sent e) = [a, b, c, d]"
    using length_4_list by blast
  have "slice (Bytes out) 12 16 = bytes_of_string (kod_code_sent e)"
    unfolding Bytes_ReferenceID using kod
    by (simp add: abcd Uint32_b0 Uint32_b1 Uint32_b2 Uint32_b3)
  with kod len show ?thesis
    unfolding out_def r_def by simp
qed

theorem stratum_zero_implies_kod_witness:
  "0 \<le> ss_Stratum (syncStatus synced_upstream) \<and>
   ActiveAttack (Security (cfg kod_engine)) \<noteq> ''stratum_attack'' \<and>
   ActiveAttack (Security (cfg kod_engine)) \<noteq> ''fuzzing'' \<and>
   Stratum (fst (snd (attackStage kod_engine example_attack_env
      (buildResponse synced_upstream example_env example_time example_request)
      ''192.0.2.7:123'' example_time))) = 0 \<and>
   LeapIndicator (fst (snd (attackStage kod_engine example_attack_env
      (buildResponse synced_upstream example_env example_time example_request)
      ''192.0.2.7:123'' example_time))) = 3 \<and>
   slice (Bytes (fst (snd (attackStage kod_engine example_attack_env
      (buildResponse synced_upstream example_env example_time example_request)
      ''192.0.2.7:123'' example_time)))) 12 16 = bytes_of_string ''RATE''"
proof -
  have up: "0 \<le> ss_Stratum (syncStatus synced_upstream)"
    by (simp add: synced_upstream_def)
  have a: "ActiveAttack (Security (cfg kod_engine)) \<noteq> ''stratum_attack''"
    "ActiveAttack (Security (cfg kod_engine)) \<noteq> ''fuzzing''"
    by (simp_all add: kod_engine_cfg)
  have z: "Stratum (fst (snd (attackStage kod_engine example_attack_env
      (buildResponse synced_upstream example_env example_time example_request)
      ''192.0.2.7:123'' example_time))) = 0"
    by (simp add: attackStage_def IsEnabled_def ProcessPacket_packet kod_engine_on
        kod_engine_cfg applyKissOfDeath_def SetKissOfDeathCode_def Let_def)
  have code: "kod_code_sent kod_engine = ''RATE''"
    by (simp add: kod_code_sent_def kod_engine_cfg)
  show ?thesis
    using stratum_zero_implies_kod [OF up a z] up a z
    by (simp add: code)
qed

end
